theory Spec2Isabelle
  imports Complex_Main
begin

section \<open>DynaPhoPy: the phonopy interface and the QHA extraction script\<close>

text \<open>
  The development embeds \<^verbatim>\<open>dynaphopy/interface/phonopy_link.py\<close> and the data
  preparation of \<^verbatim>\<open>scripts/qha_extract.py\<close>. Both files orchestrate calls into
  phonopy, numpy and scipy. Those libraries are not part of the repository: each of their
  routines that the code calls is a field of the record \<open>phonopy\<close> below and is taken
  as a parameter. Nothing is assumed about what the routines compute. A routine is taken to
  return: an exception raised inside a library (a file that is missing, a matrix that is
  singular) is outside the model. The exceptions of the model are those that the data
  prepared by the repository's own code decide: \<^verbatim>\<open>exit()\<close>, a reshape to the wrong
  size, a stack of nothing, an index out of bounds, a division by zero.

  Floating-point numbers are values of a type variable \<open>'a\<close>. Where the code uses an
  arithmetic operation on them (\<open>/\<close>, \<open>*\<close>, \<open>\<ge>\<close>, the literals 0 and 1), the type
  has the corresponding syntactic class, which carries no law.
\<close>

subsection \<open>numpy arrays\<close>

text \<open>
  An \<^verbatim>\<open>ndarray\<close> is its shape together with its elements in C (row-major) order of
  their indices.
\<close>

record 'a ndarray =
  shape :: "nat list"
  data :: "'a list"

text \<open>\<^verbatim>\<open>np.identity(n)\<close>\<close>

definition np_identity :: "nat \<Rightarrow> ('a::{zero,one}) ndarray" where
  "np_identity n =
     \<lparr>shape = [n, n],
      data = concat (map (\<lambda>i. map (\<lambda>j. if i = j then 1 else 0) [0..<n]) [0..<n])\<rparr>"

subsection \<open>Exceptions, objects and the program state\<close>

text \<open>
  \<^verbatim>\<open>exit()\<close> raises \<^verbatim>\<open>SystemExit\<close>, which ends the interpreter; it is no subclass
  of \<^verbatim>\<open>Exception\<close>. \<^verbatim>\<open>ValueError\<close> is what numpy raises from \<^verbatim>\<open>reshape\<close> and
  \<^verbatim>\<open>vstack\<close>, \<^verbatim>\<open>IndexError\<close> what it raises for an index out of bounds.
\<close>

datatype py_error = SystemExit | ValueError | IndexError | ZeroDivisionError

fun is_Exception :: "py_error \<Rightarrow> bool" where
  "is_Exception SystemExit = False"
| "is_Exception ValueError = True"
| "is_Exception IndexError = True"
| "is_Exception ZeroDivisionError = True"

text \<open>
  \<^verbatim>\<open>
  class ForceConstants:
      def __init__(self, force_constants, supercell=None):
          self._force_constants = np.array(force_constants)
          self._supercell = supercell
  \<close>
  Instances and the arrays they hold are objects with an identity: an instance refers to
  its array by the array's address. A supercell is kept as a value; \<open>None\<close> is Python's
  \<^verbatim>\<open>None\<close>.
\<close>

record 'a ForceConstants =
  FC_force_constants :: nat
  FC_supercell :: "'a ndarray option"

text \<open>
  \<^verbatim>\<open>
  class ForceSets:
      def __init__(self, force_sets, supercell=None):
          self._forces = force_sets
          self._supercell = supercell
  \<close>
  The force sets are the dictionary that phonopy's parser returns, of type \<open>'fs\<close>.
\<close>

record ('a, 'fs) ForceSets =
  FS_forces :: 'fs
  FS_supercell :: "'a ndarray option"

text \<open>
  The state: the arrays owned by \<^verbatim>\<open>ForceConstants\<close> instances, the instances of the
  two classes (an address is a position in the list; allocation appends), and the lines
  printed so far.
\<close>

record ('a, 'fs) state =
  arrays :: "'a ndarray list"
  fc_objects :: "'a ForceConstants list"
  fs_objects :: "('a, 'fs) ForceSets list"
  stdout :: "string list"

definition print :: "string \<Rightarrow> ('a, 'fs) state \<Rightarrow> ('a, 'fs) state" where
  "print line s = s\<lparr>stdout := stdout s @ [line]\<rparr>"

text \<open>
  The constructor copies its argument into a new array (\<^verbatim>\<open>np.array\<close> copies) and
  returns the new instance.
\<close>

definition ForceConstants_init ::
  "'a ndarray \<Rightarrow> 'a ndarray option \<Rightarrow> ('a, 'fs) state \<Rightarrow> ('a, 'fs) state \<times> nat" where
  "ForceConstants_init force_constants supercell s =
     (s\<lparr>arrays := arrays s @ [force_constants],
        fc_objects := fc_objects s @
          [\<lparr>FC_force_constants = length (arrays s), FC_supercell = supercell\<rparr>]\<rparr>,
      length (fc_objects s))"

text \<open>\<^verbatim>\<open>get_array\<close> returns the instance's own array, not a copy.\<close>

definition ForceConstants_get_array :: "('a, 'fs) state \<Rightarrow> nat \<Rightarrow> nat" where
  "ForceConstants_get_array s self = FC_force_constants (fc_objects s ! self)"

definition ForceConstants_get_supercell :: "('a, 'fs) state \<Rightarrow> nat \<Rightarrow> 'a ndarray option" where
  "ForceConstants_get_supercell s self = FC_supercell (fc_objects s ! self)"

definition ForceConstants_set_supercell ::
  "nat \<Rightarrow> 'a ndarray option \<Rightarrow> ('a, 'fs) state \<Rightarrow> ('a, 'fs) state" where
  "ForceConstants_set_supercell self supercell s =
     s\<lparr>fc_objects := (fc_objects s)[self := (fc_objects s ! self)\<lparr>FC_supercell := supercell\<rparr>]\<rparr>"

text \<open>The tensor an instance holds in a state.\<close>

definition tensor_of :: "('a, 'fs) state \<Rightarrow> nat \<Rightarrow> 'a ndarray" where
  "tensor_of s self = arrays s ! ForceConstants_get_array s self"


definition ForceSets_init ::
  "'fs \<Rightarrow> 'a ndarray option \<Rightarrow> ('a, 'fs) state \<Rightarrow> ('a, 'fs) state \<times> nat" where
  "ForceSets_init force_sets supercell s =
     (s\<lparr>fs_objects := fs_objects s @ [\<lparr>FS_forces = force_sets, FS_supercell = supercell\<rparr>]\<rparr>,
      length (fs_objects s))"

definition ForceSets_get_dict :: "('a, 'fs) state \<Rightarrow> nat \<Rightarrow> 'fs" where
  "ForceSets_get_dict s self = FS_forces (fs_objects s ! self)"

definition ForceSets_get_supercell :: "('a, 'fs) state \<Rightarrow> nat \<Rightarrow> 'a ndarray option" where
  "ForceSets_get_supercell s self = FS_supercell (fs_objects s ! self)"

definition ForceSets_set_supercell ::
  "nat \<Rightarrow> 'a ndarray option \<Rightarrow> ('a, 'fs) state \<Rightarrow> ('a, 'fs) state" where
  "ForceSets_set_supercell self supercell s =
     s\<lparr>fs_objects := (fs_objects s)[self := (fs_objects s ! self)\<lparr>FS_supercell := supercell\<rparr>]\<rparr>"

subsection \<open>The libraries\<close>

text \<open>\<^verbatim>\<open>PhonopyAtoms(symbols=..., scaled_positions=..., cell=...)\<close>\<close>

record 'a PhonopyAtoms =
  symbols :: "string list"
  scaled_positions :: "'a ndarray"
  cell :: "'a ndarray"

text \<open>
  \<^verbatim>\<open>DynmatToForceConstants(primitive, supercell)\<close>: the object is what it has been given,
  the two cells and the arguments of \<^verbatim>\<open>set_dynamical_matrices\<close> (the frequencies, and
  the eigenvector matrices, one per q-point). What \<^verbatim>\<open>run\<close> computes from them is a
  parameter.
\<close>

record ('a, 'c) DynmatToForceConstants =
  d2f_primitive :: 'c
  d2f_supercell :: 'c
  d2f_dynamical_matrices :: "('a ndarray \<times> 'a ndarray list) option"

definition DynmatToForceConstants_init :: "'c \<Rightarrow> 'c \<Rightarrow> ('a, 'c) DynmatToForceConstants" where
  "DynmatToForceConstants_init primitive supercell =
     \<lparr>d2f_primitive = primitive, d2f_supercell = supercell, d2f_dynamical_matrices = None\<rparr>"

definition set_dynamical_matrices ::
  "('a, 'c) DynmatToForceConstants \<Rightarrow> 'a ndarray \<Rightarrow> 'a ndarray list
     \<Rightarrow> ('a, 'c) DynmatToForceConstants" where
  "set_dynamical_matrices d frequencies eigenvectors =
     d\<lparr>d2f_dynamical_matrices := Some (frequencies, eigenvectors)\<rparr>"

text \<open>
  The routines of phonopy, numpy and Python that the code calls. \<open>'ph\<close> is a
  \<^verbatim>\<open>Phonopy\<close> object, \<open>'c\<close> a phonopy cell (primitive cell or supercell), \<open>'fs\<close> a
  displacement dataset, \<open>'nac\<close> the parameters read from \<^verbatim>\<open>BORN\<close>, \<open>'sym\<close> a
  symmetry object. A method that changes its object returns the changed object.
  \<^item> \<open>Phonopy bulk supercell_matrix primitive_matrix\<close> is the constructor, called with
    \<^verbatim>\<open>symprec=1e-5\<close>;
  \<^item> \<open>phonon_produce_force_constants\<close> is called with
    \<^verbatim>\<open>computation_algorithm="svd"\<close>, \<open>parse_BORN\<close> with \<^verbatim>\<open>is_symmetry=True\<close>,
    \<open>phonon_set_total_DOS\<close> with \<^verbatim>\<open>tetrahedron_method=True\<close>;
  \<^item> \<open>phonon_set_mesh phonon mesh is_eigenvectors is_mesh_symmetry\<close>;
  \<^item> \<open>DynmatToForceConstants_run d\<close> is \<^verbatim>\<open>d.run()\<close> followed by
    \<^verbatim>\<open>d.get_force_constants()\<close>;
  \<^item> \<open>set_tensor_symmetry_PJ fc lattice positions symmetry\<close> is the content that the
    routine writes into the array \<open>fc\<close> it is given (it works in place and returns
    nothing);
  \<^item> \<open>get_reciprocal_operations bulk\<close> is
    \<^verbatim>\<open>Symmetry(bulk).get_reciprocal_operations()\<close>;
  \<^item> \<open>np_dot\<close> and \<open>np_linalg_inv\<close> are \<^verbatim>\<open>np.dot\<close> and \<^verbatim>\<open>np.linalg.inv\<close>,
    \<open>py_float\<close> is \<^verbatim>\<open>float\<close> on an integer.
\<close>

record ('a, 'ph, 'c, 'fs, 'nac, 'sym) phonopy =
  VaspToTHz :: 'a
  parse_FORCE_SETS :: "string \<Rightarrow> 'fs"
  parse_FORCE_CONSTANTS :: "string \<Rightarrow> 'a ndarray"
  parse_BORN :: "'c \<Rightarrow> 'nac"
  Phonopy :: "'a PhonopyAtoms \<Rightarrow> 'a ndarray \<Rightarrow> 'a ndarray \<Rightarrow> 'ph"
  phonon_get_primitive :: "'ph \<Rightarrow> 'c"
  phonon_get_supercell :: "'ph \<Rightarrow> 'c"
  phonon_symmetry :: "'ph \<Rightarrow> 'sym"
  phonon_set_nac_params :: "'ph \<Rightarrow> 'nac \<Rightarrow> 'ph"
  phonon_set_force_constants :: "'ph \<Rightarrow> 'a ndarray \<Rightarrow> 'ph"
  phonon_set_displacement_dataset :: "'ph \<Rightarrow> 'fs \<Rightarrow> 'ph"
  phonon_produce_force_constants :: "'ph \<Rightarrow> 'ph"
  phonon_get_force_constants :: "'ph \<Rightarrow> 'a ndarray"
  phonon_set_mesh :: "'ph \<Rightarrow> int list \<Rightarrow> bool \<Rightarrow> bool \<Rightarrow> 'ph"
  phonon_set_total_DOS :: "'ph \<Rightarrow> 'a option \<Rightarrow> 'a option \<Rightarrow> 'ph"
  phonon_get_total_DOS :: "'ph \<Rightarrow> 'a list \<times> 'a list"
  phonon_set_partial_DOS :: "'ph \<Rightarrow> 'a option \<Rightarrow> 'a option \<Rightarrow> 'ph"
  phonon_get_partial_DOS :: "'ph \<Rightarrow> 'a list \<times> 'a list list"
  cell_get_cell :: "'c \<Rightarrow> 'a ndarray"
  cell_get_scaled_positions :: "'c \<Rightarrow> 'a ndarray"
  DynmatToForceConstants_run :: "('a, 'c) DynmatToForceConstants \<Rightarrow> 'a ndarray"
  set_tensor_symmetry_PJ :: "'a ndarray \<Rightarrow> 'a ndarray \<Rightarrow> 'a ndarray \<Rightarrow> 'sym \<Rightarrow> 'a ndarray"
  get_reciprocal_operations :: "'a PhonopyAtoms \<Rightarrow> 'a ndarray list"
  np_dot :: "'a ndarray \<Rightarrow> 'a ndarray \<Rightarrow> 'a ndarray"
  np_linalg_inv :: "'a ndarray \<Rightarrow> 'a ndarray"
  py_float :: "nat \<Rightarrow> 'a"

subsection \<open>The structure\<close>

text \<open>
  Modelled from the spec: the class \<^verbatim>\<open>Structure\<close> of the repository, which is not
  among the source files. The spec gives it the atomic species, the scaled positions, the
  lattice cell, the primitive-cell matrix, the phonon supercell, and at most one
  \<^verbatim>\<open>ForceConstants\<close> and one \<^verbatim>\<open>ForceSets\<close>; the code reads in addition its number
  of dimensions, of primitive atoms and of atoms. A field is what the getter of the same
  name returns; the force data are addresses of instances, \<open>None\<close> when there is none.
\<close>

record 'a Structure =
  get_atomic_elements :: "string list"
  get_scaled_positions :: "'a ndarray"
  get_cell :: "'a ndarray"
  get_primitive_matrix :: "'a ndarray"
  get_supercell_phonon :: "'a ndarray"
  get_number_of_dimensions :: nat
  get_number_of_primitive_atoms :: nat
  get_number_of_atoms :: nat
  get_force_constants :: "nat option"
  get_force_sets :: "nat option"

definition set_force_constants :: "'a Structure \<Rightarrow> nat \<Rightarrow> 'a Structure" where
  "set_force_constants structure force_constants =
     structure\<lparr>get_force_constants := Some force_constants\<rparr>"

subsection \<open>Loading force data\<close>

text \<open>
  \<^verbatim>\<open>
  def get_force_sets_from_file(file_name='FORCE_SETS', fs_supercell=None):
      force_sets = ForceSets(parse_FORCE_SETS(filename=file_name))
      if fs_supercell is not None:
          force_sets.set_supercell(fs_supercell)
      else:
          print('No force sets supercell defined, set to identity')
          force_sets.set_supercell(np.identity(3))
      return force_sets
  \<close>
\<close>

definition get_force_sets_from_file ::
  "('a::{zero,one}, 'ph, 'c, 'fs, 'nac, 'sym) phonopy \<Rightarrow> string \<Rightarrow> 'a ndarray option
     \<Rightarrow> ('a, 'fs) state \<Rightarrow> ('a, 'fs) state \<times> nat" where
  "get_force_sets_from_file api file_name fs_supercell s =
     (case ForceSets_init (parse_FORCE_SETS api file_name) None s of
        (s1, force_sets) \<Rightarrow>
          (case fs_supercell of
             Some supercell \<Rightarrow> (ForceSets_set_supercell force_sets (Some supercell) s1, force_sets)
           | None \<Rightarrow>
               (ForceSets_set_supercell force_sets (Some (np_identity 3))
                  (print ''No force sets supercell defined, set to identity'' s1),
                force_sets)))"

text \<open>
  \<^verbatim>\<open>
  def get_force_constants_from_file(file_name='FORCE_CONSTANTS', fc_supercell=None):
      force_constants = ForceConstants(np.array(parse_FORCE_CONSTANTS(filename=file_name)))
      if fc_supercell is not None:
          force_constants.set_supercell(fc_supercell)
      else:
          print('No force sets supercell defined, set to identity')
          force_constants.set_supercell(np.identity(3))
      return force_constants
  \<close>
  The array made by the inner \<^verbatim>\<open>np.array\<close> is dropped after the constructor has copied
  it; only the instance's own array is kept in the state.
\<close>

definition get_force_constants_from_file ::
  "('a::{zero,one}, 'ph, 'c, 'fs, 'nac, 'sym) phonopy \<Rightarrow> string \<Rightarrow> 'a ndarray option
     \<Rightarrow> ('a, 'fs) state \<Rightarrow> ('a, 'fs) state \<times> nat" where
  "get_force_constants_from_file api file_name fc_supercell s =
     (case ForceConstants_init (parse_FORCE_CONSTANTS api file_name) None s of
        (s1, force_constants) \<Rightarrow>
          (case fc_supercell of
             Some supercell \<Rightarrow>
               (ForceConstants_set_supercell force_constants (Some supercell) s1, force_constants)
           | None \<Rightarrow>
               (ForceConstants_set_supercell force_constants (Some (np_identity 3))
                  (print ''No force sets supercell defined, set to identity'' s1),
                force_constants)))"

subsection \<open>\<^verbatim>\<open>get_phonon\<close>\<close>

text \<open>
  \<^verbatim>\<open>
  def get_phonon(structure, NAC=False, setup_forces=True, custom_supercell=None):
      if custom_supercell is None:
          super_cell_phonon = structure.get_supercell_phonon()
      else:
          super_cell_phonon = custom_supercell
      bulk = PhonopyAtoms(symbols=structure.get_atomic_elements(),
                          scaled_positions=structure.get_scaled_positions(),
                          cell=structure.get_cell())
      phonon = Phonopy(bulk, super_cell_phonon,
                       primitive_matrix=structure.get_primitive_matrix(), symprec=1e-5)
      if NAC:
          print("Phonopy warning: Using Non Analytical Corrections")
          primitive = phonon.get_primitive()
          nac_params = parse_BORN(primitive, is_symmetry=True)
          phonon.set_nac_params(nac_params=nac_params)
      if setup_forces:
          if structure.get_force_constants() is not None:
              phonon.set_force_constants(structure.get_force_constants().get_array())
          elif structure.get_force_sets() is not None:
              phonon.set_displacement_dataset(structure.get_force_sets().get_dict())
              phonon.produce_force_constants(computation_algorithm="svd")
              structure.set_force_constants(ForceConstants(phonon.get_force_constants(),
                  supercell=structure.get_force_sets().get_supercell()))
          else:
              print('No force sets/constants available!')
              exit()
      return phonon
  \<close>
  The structure is an object of the caller that the function may change: the model returns
  its new value next to the phonon. \<^verbatim>\<open>phonon.set_force_constants\<close> is given the
  content of the instance's array; no array changes while a phonon object is in use.
\<close>

definition bulk_of :: "'a Structure \<Rightarrow> 'a PhonopyAtoms" where
  "bulk_of structure =
     \<lparr>symbols = get_atomic_elements structure,
      scaled_positions = get_scaled_positions structure,
      cell = get_cell structure\<rparr>"

definition get_phonon ::
  "('a, 'ph, 'c, 'fs, 'nac, 'sym) phonopy \<Rightarrow> 'a Structure \<Rightarrow> bool \<Rightarrow> bool
     \<Rightarrow> 'a ndarray option \<Rightarrow> ('a, 'fs) state
     \<Rightarrow> ('a, 'fs) state \<times> (py_error + 'ph \<times> 'a Structure)" where
  "get_phonon api structure NAC setup_forces custom_supercell s =
     (let super_cell_phonon =
            (case custom_supercell of
               None \<Rightarrow> get_supercell_phonon structure
             | Some supercell \<Rightarrow> supercell);
          phonon0 = Phonopy api (bulk_of structure) super_cell_phonon
                      (get_primitive_matrix structure);
          s1 = (if NAC then print ''Phonopy warning: Using Non Analytical Corrections'' s else s);
          phonon1 = (if NAC
                     then phonon_set_nac_params api phonon0
                            (parse_BORN api (phonon_get_primitive api phonon0))
                     else phonon0)
      in if setup_forces then
           (case get_force_constants structure of
              Some fc \<Rightarrow> (s1, Inr (phonon_set_force_constants api phonon1 (tensor_of s1 fc), structure))
            | None \<Rightarrow>
                (case get_force_sets structure of
                   Some fs \<Rightarrow>
                     (let phonon2 = phonon_produce_force_constants api
                                      (phonon_set_displacement_dataset api phonon1
                                         (ForceSets_get_dict s1 fs))
                      in case ForceConstants_init (phonon_get_force_constants api phonon2)
                                (ForceSets_get_supercell s1 fs) s1 of
                           (s2, fc) \<Rightarrow> (s2, Inr (phonon2, set_force_constants structure fc)))
                 | None \<Rightarrow> (print ''No force sets/constants available!'' s1, Inl SystemExit)))
         else (s1, Inr (phonon1, structure)))"

subsection \<open>\<^verbatim>\<open>obtain_phonopy_dos\<close>\<close>

text \<open>\<^verbatim>\<open>str\<close> of an integer, for \<^verbatim>\<open>'No atom type {0}'.format(projected_on_atom)\<close>.\<close>

fun str_nat :: "nat \<Rightarrow> string" where
  "str_nat n =
     (if n < 10 then [''0123456789'' ! n]
      else str_nat (n div 10) @ [''0123456789'' ! (n mod 10)])"

declare str_nat.simps [simp del]

definition str_int :: "int \<Rightarrow> string" where
  "str_int i = (if i < 0 then ''-'' @ str_nat (nat (- i)) else str_nat (nat i))"

text \<open>
  \<^verbatim>\<open>
  def obtain_phonopy_dos(structure, mesh=(40, 40, 40), force_constants=None,
                         freq_min=None, freq_max=None, projected_on_atom=-1):
      if force_constants is None:
          phonon = get_phonon(structure, setup_forces=True, custom_supercell=None)
      else:
          phonon = get_phonon(structure, setup_forces=False,
                              custom_supercell=force_constants.get_supercell())
          phonon.set_force_constants(force_constants.get_array())
  \<close>
  These first lines are \<open>dos_phonon\<close>.
\<close>

definition dos_phonon ::
  "('a, 'ph, 'c, 'fs, 'nac, 'sym) phonopy \<Rightarrow> 'a Structure \<Rightarrow> nat option \<Rightarrow> ('a, 'fs) state
     \<Rightarrow> ('a, 'fs) state \<times> (py_error + 'ph \<times> 'a Structure)" where
  "dos_phonon api structure force_constants s =
     (case force_constants of
        None \<Rightarrow> get_phonon api structure False True None s
      | Some fc \<Rightarrow>
          (case get_phonon api structure False False (ForceConstants_get_supercell s fc) s of
             (s1, Inl e) \<Rightarrow> (s1, Inl e)
           | (s1, Inr (phonon, structure1)) \<Rightarrow>
               (s1, Inr (phonon_set_force_constants api phonon (tensor_of s1 fc), structure1))))"

text \<open>
  \<^verbatim>\<open>
      if projected_on_atom < 0:
          phonon.set_mesh(mesh)
          phonon.set_total_DOS(freq_min=freq_min, freq_max=freq_max, tetrahedron_method=True)
          total_dos = np.array(phonon.get_total_DOS())
      else:
          phonon.set_mesh(mesh, is_eigenvectors=True, is_mesh_symmetry=False)
          phonon.set_partial_DOS(freq_min=freq_min, freq_max=freq_max)
          if projected_on_atom >= len(phonon.get_partial_DOS()[1]):
              print('No atom type {0}'.format(projected_on_atom))
              exit()
          total_dos = np.array([phonon.get_partial_DOS()[0],
                                phonon.get_partial_DOS()[1][projected_on_atom]])
      #Normalize to unit cell
      total_dos[1, :] *= float(structure.get_number_of_atoms())/structure.get_number_of_primitive_atoms()
      return total_dos
  \<close>
  \<^verbatim>\<open>total_dos\<close> is an array of two rows, the frequencies and the densities, as phonopy
  returns them; it is modelled as the list of its two rows. The division raises
  \<^verbatim>\<open>ZeroDivisionError\<close> when the structure has no primitive atom.
\<close>

definition partial_dos_phonon ::
  "('a, 'ph, 'c, 'fs, 'nac, 'sym) phonopy \<Rightarrow> 'ph \<Rightarrow> int list \<Rightarrow> 'a option \<Rightarrow> 'a option \<Rightarrow> 'ph" where
  "partial_dos_phonon api phonon mesh freq_min freq_max =
     phonon_set_partial_DOS api (phonon_set_mesh api phonon mesh True False) freq_min freq_max"

definition normalize_to_unit_cell ::
  "('a::{times,inverse}, 'ph, 'c, 'fs, 'nac, 'sym) phonopy \<Rightarrow> 'a Structure \<Rightarrow> 'a list list
     \<Rightarrow> py_error + 'a list list" where
  "normalize_to_unit_cell api structure total_dos =
     (if get_number_of_primitive_atoms structure = 0 then Inl ZeroDivisionError
      else Inr [total_dos ! 0,
                map (\<lambda>x. x * (py_float api (get_number_of_atoms structure)
                               / py_float api (get_number_of_primitive_atoms structure)))
                  (total_dos ! 1)])"

definition obtain_phonopy_dos ::
  "('a::{times,inverse}, 'ph, 'c, 'fs, 'nac, 'sym) phonopy \<Rightarrow> 'a Structure \<Rightarrow> int list
     \<Rightarrow> nat option \<Rightarrow> 'a option \<Rightarrow> 'a option \<Rightarrow> int \<Rightarrow> ('a, 'fs) state
     \<Rightarrow> ('a, 'fs) state \<times> (py_error + 'a list list \<times> 'a Structure)" where
  "obtain_phonopy_dos api structure mesh force_constants freq_min freq_max projected_on_atom s =
     (case dos_phonon api structure force_constants s of
        (s1, Inl e) \<Rightarrow> (s1, Inl e)
      | (s1, Inr (phonon, structure1)) \<Rightarrow>
          (if projected_on_atom < 0 then
             (let phonon1 = phonon_set_total_DOS api (phonon_set_mesh api phonon mesh False True)
                              freq_min freq_max;
                  total_dos = [fst (phonon_get_total_DOS api phonon1),
                               snd (phonon_get_total_DOS api phonon1)]
              in case normalize_to_unit_cell api structure1 total_dos of
                   Inl e \<Rightarrow> (s1, Inl e)
                 | Inr dos \<Rightarrow> (s1, Inr (dos, structure1)))
           else
             (let phonon1 = partial_dos_phonon api phonon mesh freq_min freq_max
              in if projected_on_atom \<ge> int (length (snd (phonon_get_partial_DOS api phonon1)))
                 then (print (''No atom type '' @ str_int projected_on_atom) s1, Inl SystemExit)
                 else
                   (let total_dos = [fst (phonon_get_partial_DOS api phonon1),
                                     snd (phonon_get_partial_DOS api phonon1)
                                       ! nat projected_on_atom]
                    in case normalize_to_unit_cell api structure1 total_dos of
                         Inl e \<Rightarrow> (s1, Inl e)
                       | Inr dos \<Rightarrow> (s1, Inr (dos, structure1))))))"

subsection \<open>\<^verbatim>\<open>get_equivalent_q_points_by_symmetry\<close>\<close>

text \<open>
  The transpose \<^verbatim>\<open>.T\<close> of a two-dimensional array (the code transposes no other).
\<close>

definition T :: "'a ndarray \<Rightarrow> 'a ndarray" where
  "T a =
     (case shape a of
        [r, c] \<Rightarrow>
          \<lparr>shape = [c, r],
           data = concat (map (\<lambda>j. map (\<lambda>i. data a ! (i * c + j)) [0..<r]) [0..<c])\<rparr>
      | _ \<Rightarrow> a)"

text \<open>
  \<^verbatim>\<open>np.vstack\<close> of a collection of tuples: the rows of the result are the tuples. It
  raises \<^verbatim>\<open>ValueError\<close> when there is no tuple or when their lengths differ.
\<close>

definition np_vstack :: "'a list list \<Rightarrow> py_error + 'a ndarray" where
  "np_vstack rs =
     (if rs = [] then Inl ValueError
      else if list_all (\<lambda>r. length r = length (hd rs)) rs
      then Inr \<lparr>shape = [length rs, length (hd rs)], data = concat rs\<rparr>
      else Inl ValueError)"

text \<open>The rows of a two-dimensional array.\<close>

definition rows :: "'a ndarray \<Rightarrow> 'a list list" where
  "rows a =
     (case shape a of
        [n, m] \<Rightarrow> map (\<lambda>i. take m (drop (i * m) (data a))) [0..<n]
      | _ \<Rightarrow> [])"

text \<open>
  \<^verbatim>\<open>
  def get_equivalent_q_points_by_symmetry(q_point, structure):
      bulk = PhonopyAtoms(symbols=structure.get_atomic_elements(),
                          scaled_positions=structure.get_scaled_positions(),
                          cell=structure.get_cell())
      tot_points = []
      for operation_matrix in Symmetry(bulk).get_reciprocal_operations():
          operation_matrix_q = np.dot(np.linalg.inv(structure.get_primitive_matrix()), operation_matrix.T)
          operation_matrix_q = np.dot(operation_matrix_q, structure.get_primitive_matrix())
          q_point_test = np.dot(q_point, operation_matrix_q)
          if (q_point_test >= 0).all():
                  tot_points.append(q_point_test)
      return np.vstack({tuple(row) for row in tot_points})
  \<close>
  \<open>q_point\<close> is a vector, so every image is a one-dimensional array and its tuple is the
  list of its elements. The set comprehension keeps one tuple of each value; Python fixes
  no order for the elements of a set, the model keeps the order of first occurrence. Numbers
  are equal here when Python's \<^verbatim>\<open>==\<close> says so.
\<close>

definition q_point_image ::
  "('a, 'ph, 'c, 'fs, 'nac, 'sym) phonopy \<Rightarrow> 'a ndarray \<Rightarrow> 'a Structure \<Rightarrow> 'a ndarray
     \<Rightarrow> 'a ndarray" where
  "q_point_image api q_point structure operation_matrix =
     np_dot api q_point
       (np_dot api
          (np_dot api (np_linalg_inv api (get_primitive_matrix structure)) (T operation_matrix))
          (get_primitive_matrix structure))"

definition tot_points ::
  "('a::{zero,ord}, 'ph, 'c, 'fs, 'nac, 'sym) phonopy \<Rightarrow> 'a ndarray \<Rightarrow> 'a Structure
     \<Rightarrow> 'a ndarray list" where
  "tot_points api q_point structure =
     filter (\<lambda>q_point_test. list_all (\<lambda>x. x \<ge> 0) (data q_point_test))
       (map (q_point_image api q_point structure)
          (get_reciprocal_operations api (bulk_of structure)))"

definition get_equivalent_q_points_by_symmetry ::
  "('a::{zero,ord}, 'ph, 'c, 'fs, 'nac, 'sym) phonopy \<Rightarrow> 'a ndarray \<Rightarrow> 'a Structure
     \<Rightarrow> py_error + 'a ndarray" where
  "get_equivalent_q_points_by_symmetry api q_point structure =
     np_vstack (remdups (map data (tot_points api q_point structure)))"

subsection \<open>\<^verbatim>\<open>get_renormalized_force_constants\<close>\<close>

text \<open>
  \<^verbatim>\<open>a.reshape(r, c, order='C')\<close>: the elements keep their C order; numpy raises
  \<^verbatim>\<open>ValueError\<close> unless the array has \<open>r * c\<close> elements.
\<close>

definition reshape :: "'a ndarray \<Rightarrow> nat \<Rightarrow> nat \<Rightarrow> py_error + 'a ndarray" where
  "reshape a r c =
     (if length (data a) = r * c then Inr \<lparr>shape = [r, c], data = data a\<rparr>
      else Inl ValueError)"

text \<open>
  \<^verbatim>\<open>[eigenvector.reshape(size, size, order='C').T for eigenvector in eigenvectors]\<close>:
  the comprehension stops at the first eigenvector that cannot be reshaped.
\<close>

fun reshape_eigenvectors :: "nat \<Rightarrow> 'a ndarray list \<Rightarrow> py_error + 'a ndarray list" where
  "reshape_eigenvectors size' [] = Inr []"
| "reshape_eigenvectors size' (eigenvector # eigenvectors) =
     (case reshape eigenvector size' size' of
        Inl e \<Rightarrow> Inl e
      | Inr m \<Rightarrow>
          (case reshape_eigenvectors size' eigenvectors of
             Inl e \<Rightarrow> Inl e
           | Inr ms \<Rightarrow> Inr (T m # ms)))"

text \<open>An array divided by a scalar: every element is divided.\<close>

definition np_divide :: "('a::inverse) ndarray \<Rightarrow> 'a \<Rightarrow> 'a ndarray" where
  "np_divide a v = a\<lparr>data := map (\<lambda>x. x / v) (data a)\<rparr>"

text \<open>
  \<^verbatim>\<open>
  def get_renormalized_force_constants(renormalized_frequencies, eigenvectors, structure,
                                       fc_supercell, symmetrize=False):
      phonon = get_phonon(structure, setup_forces=False, custom_supercell=fc_supercell)
      primitive = phonon.get_primitive()
      supercell = phonon.get_supercell()
      dynmat2fc = DynmatToForceConstants(primitive, supercell)
      size = structure.get_number_of_dimensions() * structure.get_number_of_primitive_atoms()
      eigenvectors = np.array([eigenvector.reshape(size, size, order='C').T
                               for eigenvector in eigenvectors ])
      dynmat2fc.set_dynamical_matrices(renormalized_frequencies / VaspToTHz, eigenvectors)
  \<close>
  Up to here the function is \<open>renormalized_dynmat2fc\<close>, which returns the phonon and the
  reconstruction context \<^verbatim>\<open>dynmat2fc\<close> as it is before \<^verbatim>\<open>run\<close>. \<open>eigenvectors\<close> is
  the sequence of arrays that the comprehension iterates over; the three-dimensional array
  built from the matrices is the list of the matrices.
\<close>

definition renormalized_dynmat2fc ::
  "('a::inverse, 'ph, 'c, 'fs, 'nac, 'sym) phonopy \<Rightarrow> 'a ndarray \<Rightarrow> 'a ndarray list
     \<Rightarrow> 'a Structure \<Rightarrow> 'a ndarray option \<Rightarrow> ('a, 'fs) state
     \<Rightarrow> ('a, 'fs) state \<times> (py_error + 'ph \<times> ('a, 'c) DynmatToForceConstants)" where
  "renormalized_dynmat2fc api renormalized_frequencies eigenvectors structure fc_supercell s =
     (case get_phonon api structure False False fc_supercell s of
        (s1, Inl e) \<Rightarrow> (s1, Inl e)
      | (s1, Inr (phonon, structure1)) \<Rightarrow>
          (let primitive = phonon_get_primitive api phonon;
               supercell = phonon_get_supercell api phonon;
               dynmat2fc = DynmatToForceConstants_init primitive supercell;
               size' = get_number_of_dimensions structure1
                         * get_number_of_primitive_atoms structure1
           in case reshape_eigenvectors size' eigenvectors of
                Inl e \<Rightarrow> (s1, Inl e)
              | Inr eigenvectors1 \<Rightarrow>
                  (s1, Inr (phonon,
                     set_dynamical_matrices dynmat2fc
                       (np_divide renormalized_frequencies (VaspToTHz api)) eigenvectors1))))"

text \<open>
  \<^verbatim>\<open>
      dynmat2fc.run()
      force_constants = ForceConstants(dynmat2fc.get_force_constants(), supercell=fc_supercell)
  \<close>
  Up to here the function is \<open>renormalized_construct\<close>, which returns the phonon and the
  new instance.
\<close>

definition renormalized_construct ::
  "('a::inverse, 'ph, 'c, 'fs, 'nac, 'sym) phonopy \<Rightarrow> 'a ndarray \<Rightarrow> 'a ndarray list
     \<Rightarrow> 'a Structure \<Rightarrow> 'a ndarray option \<Rightarrow> ('a, 'fs) state
     \<Rightarrow> ('a, 'fs) state \<times> (py_error + 'ph \<times> nat)" where
  "renormalized_construct api renormalized_frequencies eigenvectors structure fc_supercell s =
     (case renormalized_dynmat2fc api renormalized_frequencies eigenvectors structure
             fc_supercell s of
        (s1, Inl e) \<Rightarrow> (s1, Inl e)
      | (s1, Inr (phonon, dynmat2fc)) \<Rightarrow>
          (case ForceConstants_init (DynmatToForceConstants_run api dynmat2fc) fc_supercell s1 of
             (s2, force_constants) \<Rightarrow> (s2, Inr (phonon, force_constants))))"

text \<open>
  \<^verbatim>\<open>
      if symmetrize:
          print('Symmetrizing force constants')
          set_tensor_symmetry_PJ(force_constants.get_array(),
                                 phonon.supercell.get_cell(),
                                 phonon.supercell.get_scaled_positions(),
                                 phonon.symmetry)
      return force_constants
  \<close>
  \<^verbatim>\<open>set_tensor_symmetry_PJ\<close> is handed the instance's own array and its result is
  dropped: what it does, it does to that array.
\<close>

definition symmetrize_in_place ::
  "('a, 'ph, 'c, 'fs, 'nac, 'sym) phonopy \<Rightarrow> 'ph \<Rightarrow> nat \<Rightarrow> ('a, 'fs) state \<Rightarrow> ('a, 'fs) state" where
  "symmetrize_in_place api phonon array s =
     s\<lparr>arrays := (arrays s)[array :=
          set_tensor_symmetry_PJ api (arrays s ! array)
            (cell_get_cell api (phonon_get_supercell api phonon))
            (cell_get_scaled_positions api (phonon_get_supercell api phonon))
            (phonon_symmetry api phonon)]\<rparr>"

definition get_renormalized_force_constants ::
  "('a::inverse, 'ph, 'c, 'fs, 'nac, 'sym) phonopy \<Rightarrow> 'a ndarray \<Rightarrow> 'a ndarray list
     \<Rightarrow> 'a Structure \<Rightarrow> 'a ndarray option \<Rightarrow> bool \<Rightarrow> ('a, 'fs) state
     \<Rightarrow> ('a, 'fs) state \<times> (py_error + nat)" where
  "get_renormalized_force_constants api renormalized_frequencies eigenvectors structure
       fc_supercell symmetrize s =
     (case renormalized_construct api renormalized_frequencies eigenvectors structure
             fc_supercell s of
        (s1, Inl e) \<Rightarrow> (s1, Inl e)
      | (s1, Inr (phonon, force_constants)) \<Rightarrow>
          (if symmetrize
           then (symmetrize_in_place api phonon (ForceConstants_get_array s1 force_constants)
                   (print ''Symmetrizing force constants'' s1),
                 Inr force_constants)
           else (s1, Inr force_constants)))"

subsection \<open>The data preparation of \<^verbatim>\<open>qha_extract.py\<close>\<close>

text \<open>
  The script reads the energy-volume table (rows of a volume and an electronic energy), one
  thermal-properties file and one force-constants file per volume, and hands the data to
  \<^verbatim>\<open>PhonopyQHA\<close> and to scipy's \<^verbatim>\<open>interp1d\<close>. The model computes the arguments of
  those two calls. Volumes are of a type \<open>'v\<close> with a linear order.

  \<^verbatim>\<open>np.argsort(volumes)\<close>: the positions of the volumes in increasing order. For equal
  volumes numpy's default sort fixes no order; the model keeps them in their order of
  occurrence.
\<close>

definition argsort :: "('v::linorder) list \<Rightarrow> nat list" where
  "argsort xs = map snd (sort_key fst (zip xs [0..<length xs]))"

text \<open>\<^verbatim>\<open>a[index]\<close> for a one-dimensional array and a list of positions.\<close>

definition take_index :: "'b list \<Rightarrow> nat list \<Rightarrow> py_error + 'b list" where
  "take_index a index =
     (if list_all (\<lambda>i. i < length a) index then Inr (map (\<lambda>i. a ! i) index)
      else Inl IndexError)"

text \<open>
  \<^verbatim>\<open>np.array(m).T[:, index]\<close> for a list \<open>m\<close> of per-file series: row \<open>t\<close> of the result
  holds the \<open>t\<close>-th value of the files at the positions \<open>index\<close>. With no file, or with
  series of different lengths, the array is not two-dimensional and the subscript raises
  \<^verbatim>\<open>IndexError\<close>.
\<close>

definition T_take_index :: "'b list list \<Rightarrow> nat list \<Rightarrow> py_error + 'b list list" where
  "T_take_index m index =
     (if m \<noteq> [] \<and> list_all (\<lambda>r. length r = length (hd m)) m
         \<and> list_all (\<lambda>i. i < length m) index
      then Inr (map (\<lambda>t. map (\<lambda>i. m ! i ! t) index) [0..<length (hd m)])
      else Inl IndexError)"

text \<open>One entry of the \<^verbatim>\<open>thermal_properties\<close> list of a thermal-properties file.\<close>

record 'a thermal_property =
  temperature :: 'a
  entropy :: 'a
  free_energy :: 'a
  heat_capacity :: 'a

text \<open>
  \<^verbatim>\<open>
  for filename in tp_filenames:
      temperatures = []
      ...
      for tp in thermal_properties['thermal_properties']:
          temperatures.append(tp['temperature'])
          ...
  \<close>
  The temperatures are those of the last file read.
\<close>

definition read_temperatures :: "'a thermal_property list list \<Rightarrow> 'a list" where
  "read_temperatures tp_files = (if tp_files = [] then [] else map temperature (last tp_files))"

text \<open>
  The arguments of \<^verbatim>\<open>PhonopyQHA\<close>:
  \<^verbatim>\<open>
  ev_file = np.loadtxt(args.ev)
  volumes = ev_file.T[0]
  electronic_energies = ev_file.T[1]
  ...
  sort_index = np.argsort(volumes)
  volumes = np.array(volumes)[sort_index]
  electronic_energies = np.array(electronic_energies)[sort_index]
  temperatures = np.array(temperatures)
  fe_phonon = np.array(fe_phonon).T[:, sort_index]
  entropy = np.array(entropy).T[:, sort_index]
  cv = np.array(cv).T[:, sort_index]
  \<close>
  \<open>ev_file\<close> is the list of the rows of the table. \<^verbatim>\<open>np.loadtxt\<close> gives a
  two-dimensional array only for two rows or more: for a table of one row it gives a
  one-dimensional array, \<^verbatim>\<open>volumes\<close> is then a single number and its subscript by
  \<^verbatim>\<open>sort_index\<close> raises \<^verbatim>\<open>IndexError\<close>; for an empty table \<^verbatim>\<open>ev_file.T[0]\<close>
  raises it.
\<close>

record ('v, 'a) qha_arguments =
  qha_volumes :: "'v list"
  qha_electronic_energies :: "'a list"
  qha_temperatures :: "'a list"
  qha_free_energy :: "'a list list"
  qha_cv :: "'a list list"
  qha_entropy :: "'a list list"

definition sort_by_volume ::
  "('v::linorder \<times> 'a) list \<Rightarrow> 'a thermal_property list list
     \<Rightarrow> py_error + ('v, 'a) qha_arguments" where
  "sort_by_volume ev_file tp_files =
     (if length ev_file < 2 then Inl IndexError
      else
      let volumes = map fst ev_file;
          electronic_energies = map snd ev_file;
          sort_index = argsort volumes
      in case take_index volumes sort_index of
           Inl e \<Rightarrow> Inl e
         | Inr volumes1 \<Rightarrow>
        (case take_index electronic_energies sort_index of
           Inl e \<Rightarrow> Inl e
         | Inr electronic_energies1 \<Rightarrow>
        (case T_take_index (map (map free_energy) tp_files) sort_index of
           Inl e \<Rightarrow> Inl e
         | Inr fe_phonon \<Rightarrow>
        (case T_take_index (map (map entropy) tp_files) sort_index of
           Inl e \<Rightarrow> Inl e
         | Inr entropy1 \<Rightarrow>
        (case T_take_index (map (map heat_capacity) tp_files) sort_index of
           Inl e \<Rightarrow> Inl e
         | Inr cv \<Rightarrow>
             Inr \<lparr>qha_volumes = volumes1,
                  qha_electronic_energies = electronic_energies1,
                  qha_temperatures = read_temperatures tp_files,
                  qha_free_energy = fe_phonon,
                  qha_cv = cv,
                  qha_entropy = entropy1\<rparr>)))))"

text \<open>
  \<^verbatim>\<open>
  force_constants_mat = []
  for filename in fc_filenames:
      force_constants = phonopy_link.get_force_constants_from_file(filename, fc_supercell=fc_supercell)
      force_constants_mat.append(force_constants.get_array())
  \<close>
\<close>

fun read_force_constants_mat ::
  "('a::{zero,one}, 'ph, 'c, 'fs, 'nac, 'sym) phonopy \<Rightarrow> string list \<Rightarrow> 'a ndarray option
     \<Rightarrow> ('a, 'fs) state \<Rightarrow> ('a, 'fs) state \<times> 'a ndarray list" where
  "read_force_constants_mat api [] fc_supercell s = (s, [])"
| "read_force_constants_mat api (filename # fc_filenames) fc_supercell s =
     (case get_force_constants_from_file api filename fc_supercell s of
        (s1, force_constants) \<Rightarrow>
          (case read_force_constants_mat api fc_filenames fc_supercell s1 of
             (s2, force_constants_mat) \<Rightarrow> (s2, tensor_of s1 force_constants # force_constants_mat)))"

text \<open>
  \<^verbatim>\<open>
  force_constants_mat = np.array(force_constants_mat).T
  f_temperature = interp1d(volumes, force_constants_mat, kind='quadratic')
  \<close>
  The transposition makes the axis of the files the last one, which is the axis that
  \<^verbatim>\<open>interp1d\<close> interpolates over: its \<open>k\<close>-th sample is the tensor of the \<open>k\<close>-th
  file, at the \<open>k\<close>-th of the volumes it is given. \<open>f_temperature_arguments\<close> is the
  pair of the volumes and of the samples in that order. The calls between the sorting and
  this one (\<^verbatim>\<open>PhonopyQHA\<close>, the reading of the structure) are library calls whose
  results these arguments do not use.
\<close>

definition f_temperature_arguments ::
  "('a::{zero,one}, 'ph, 'c, 'fs, 'nac, 'sym) phonopy \<Rightarrow> ('v::linorder \<times> 'a) list
     \<Rightarrow> 'a thermal_property list list \<Rightarrow> string list \<Rightarrow> 'a ndarray option \<Rightarrow> ('a, 'fs) state
     \<Rightarrow> ('a, 'fs) state \<times> (py_error + 'v list \<times> 'a ndarray list)" where
  "f_temperature_arguments api ev_file tp_files fc_filenames fc_supercell s =
     (case sort_by_volume ev_file tp_files of
        Inl e \<Rightarrow> (s, Inl e)
      | Inr qha \<Rightarrow>
          (case read_force_constants_mat api fc_filenames fc_supercell s of
             (s1, force_constants_mat) \<Rightarrow> (s1, Inr (qha_volumes qha, force_constants_mat))))"

subsection \<open>A small instance for concrete runs\<close>

text \<open>
  Stand-ins for the library routines, on a chain of two atoms in one dimension, with real
  numbers for the floats: cells and phonon objects carry nothing, the reciprocal
  operations are the identity and the inversion, \<open>np_dot\<close> and \<open>np_linalg_inv\<close> are
  the product and the inverse of \<open>1 \<times> 1\<close> matrices, the reconstruction returns a tensor
  of one element (the sum of the frequencies it was given) and the symmetrization negates
  a tensor. The force-constants files \<^verbatim>\<open>fc_a\<close>, \<^verbatim>\<open>fc_b\<close> and any other hold the
  one-element tensors 20, 10 and 30.
\<close>

definition example_api :: "(real, unit, unit, unit, unit, unit) phonopy" where
  "example_api =
     \<lparr>VaspToTHz = 2,
      parse_FORCE_SETS = (\<lambda>file_name. ()),
      parse_FORCE_CONSTANTS =
        (\<lambda>file_name.
           \<lparr>shape = [1, 1, 1, 1],
            data = [if file_name = ''fc_a'' then 20 else if file_name = ''fc_b'' then 10 else 30]\<rparr>),
      parse_BORN = (\<lambda>primitive. ()),
      Phonopy = (\<lambda>bulk supercell_matrix primitive_matrix. ()),
      phonon_get_primitive = (\<lambda>phonon. ()),
      phonon_get_supercell = (\<lambda>phonon. ()),
      phonon_symmetry = (\<lambda>phonon. ()),
      phonon_set_nac_params = (\<lambda>phonon nac_params. ()),
      phonon_set_force_constants = (\<lambda>phonon fc. ()),
      phonon_set_displacement_dataset = (\<lambda>phonon dataset. ()),
      phonon_produce_force_constants = (\<lambda>phonon. ()),
      phonon_get_force_constants = (\<lambda>phonon. \<lparr>shape = [1, 1, 1, 1], data = [1]\<rparr>),
      phonon_set_mesh = (\<lambda>phonon mesh is_eigenvectors is_mesh_symmetry. ()),
      phonon_set_total_DOS = (\<lambda>phonon freq_min freq_max. ()),
      phonon_get_total_DOS = (\<lambda>phonon. ([0, 1], [2, 3])),
      phonon_set_partial_DOS = (\<lambda>phonon freq_min freq_max. ()),
      phonon_get_partial_DOS = (\<lambda>phonon. ([0, 1], [[2, 3], [4, 5]])),
      cell_get_cell = (\<lambda>c. \<lparr>shape = [1, 1], data = [1]\<rparr>),
      cell_get_scaled_positions = (\<lambda>c. \<lparr>shape = [2, 1], data = [0, 1 / 2]\<rparr>),
      DynmatToForceConstants_run =
        (\<lambda>d. case d2f_dynamical_matrices d of
               None \<Rightarrow> \<lparr>shape = [0], data = []\<rparr>
             | Some (frequencies, eigenvectors) \<Rightarrow>
                 \<lparr>shape = [1, 1, 1, 1], data = [sum_list (data frequencies)]\<rparr>),
      set_tensor_symmetry_PJ =
        (\<lambda>fc lattice positions symmetry. fc\<lparr>data := map (\<lambda>x. - x) (data fc)\<rparr>),
      get_reciprocal_operations =
        (\<lambda>bulk. [\<lparr>shape = [1, 1], data = [1]\<rparr>, \<lparr>shape = [1, 1], data = [- 1]\<rparr>]),
      np_dot = (\<lambda>a b. \<lparr>shape = shape a, data = [hd (data a) * hd (data b)]\<rparr>),
      np_linalg_inv = (\<lambda>a. a\<lparr>data := map inverse (data a)\<rparr>),
      py_float = real\<rparr>"

definition example_structure :: "real Structure" where
  "example_structure =
     \<lparr>get_atomic_elements = [''Si'', ''Si''],
      get_scaled_positions = \<lparr>shape = [2, 1], data = [0, 1 / 2]\<rparr>,
      get_cell = \<lparr>shape = [1, 1], data = [1]\<rparr>,
      get_primitive_matrix = \<lparr>shape = [1, 1], data = [1]\<rparr>,
      get_supercell_phonon = \<lparr>shape = [1, 1], data = [1]\<rparr>,
      get_number_of_dimensions = 1,
      get_number_of_primitive_atoms = 2,
      get_number_of_atoms = 2,
      get_force_constants = None,
      get_force_sets = None\<rparr>"

definition empty_state :: "(real, unit) state" where
  "empty_state = \<lparr>arrays = [], fc_objects = [], fs_objects = [], stdout = []\<rparr>"

text \<open>A state that holds one instance already, with the tensor 20 and a supercell.\<close>

definition loaded_state :: "(real, unit) state" where
  "loaded_state =
     \<lparr>arrays = [\<lparr>shape = [1, 1, 1, 1], data = [20]\<rparr>],
      fc_objects = [\<lparr>FC_force_constants = 0,
                     FC_supercell = Some \<lparr>shape = [1, 1], data = [2]\<rparr>\<rparr>],
      fs_objects = [], stdout = []\<rparr>"

section \<open>Properties\<close>

subsection \<open>Arrays\<close>

lemma np_identity_3:
  "(np_identity 3 :: ('a::{zero,one}) ndarray) =
     \<lparr>shape = [3, 3], data = [1, 0, 0, 0, 1, 0, 0, 0, 1]\<rparr>"
  by (simp add: np_identity_def upt_rec)

text \<open>
  In the concatenation of rows of one length \<open>m\<close>, the element \<open>i\<close> of row \<open>j\<close> is at
  position \<open>j * m + i\<close>.
\<close>

lemma nth_concat_rect:
  "\<forall>xs\<in>set xss. length xs = m \<Longrightarrow> j < length xss \<Longrightarrow> i < m
     \<Longrightarrow> concat xss ! (j * m + i) = xss ! j ! i"
proof (induction xss arbitrary: j)
  case Nil
  then show ?case by simp
next
  case (Cons xs xss)
  show ?case
  proof (cases j)
    case 0
    with Cons.prems show ?thesis by (simp add: nth_append)
  next
    case (Suc k)
    with Cons.prems have "concat xss ! (k * m + i) = xss ! k ! i"
      by (intro Cons.IH) auto
    moreover have "length xs = m" using Cons.prems by simp
    ultimately show ?thesis using Suc by (simp add: nth_append)
  qed
qed

lemma length_concat_rect:
  "\<forall>xs\<in>set xss. length xs = m \<Longrightarrow> length (concat xss) = length xss * m"
  by (induction xss) auto

lemma T_shape: "shape a = [r, c] \<Longrightarrow> shape (T a) = [c, r]"
  by (simp add: T_def)

lemma T_nth:
  assumes "shape a = [r, c]" "j < c" "i < r"
  shows "data (T a) ! (j * r + i) = data a ! (i * c + j)"
proof -
  let ?xss = "map (\<lambda>j. map (\<lambda>i. data a ! (i * c + j)) [0..<r]) [0..<c]"
  have "data (T a) = concat ?xss" using assms(1) by (simp add: T_def)
  moreover have "concat ?xss ! (j * r + i) = ?xss ! j ! i"
    using assms(2,3) by (intro nth_concat_rect) auto
  ultimately show ?thesis using assms(2,3) by simp
qed

lemma rows_concat_rect:
  assumes len: "\<forall>r\<in>set rs. length r = m"
  shows "map (\<lambda>i. take m (drop (i * m) (concat rs))) [0..<length rs] = rs"
proof (rule nth_equalityI)
  show "length (map (\<lambda>i. take m (drop (i * m) (concat rs))) [0..<length rs]) = length rs"
    by simp
next
  fix i assume "i < length (map (\<lambda>i. take m (drop (i * m) (concat rs))) [0..<length rs])"
  then have i: "i < length rs" by simp
  have total: "length (concat rs) = length rs * m" using len by (rule length_concat_rect)
  have "Suc i * m \<le> length rs * m" using i by (intro mult_le_mono1) simp
  then have bound: "i * m + m \<le> length (concat rs)" using total by simp
  have "take m (drop (i * m) (concat rs)) = rs ! i"
  proof (rule nth_equalityI)
    have "length (rs ! i) = m" using len i by simp
    then show "length (take m (drop (i * m) (concat rs))) = length (rs ! i)"
      using bound by simp
  next
    fix k assume "k < length (take m (drop (i * m) (concat rs)))"
    then have k: "k < m" by simp
    then have "take m (drop (i * m) (concat rs)) ! k = concat rs ! (i * m + k)"
      using bound by simp
    also have "\<dots> = rs ! i ! k" using len i k by (rule nth_concat_rect)
    finally show "take m (drop (i * m) (concat rs)) ! k = rs ! i ! k" .
  qed
  then show "map (\<lambda>i. take m (drop (i * m) (concat rs))) [0..<length rs] ! i = rs ! i"
    using i by simp
qed

text \<open>The rows of a stacked array are the tuples that were stacked.\<close>

lemma rows_np_vstack:
  assumes "np_vstack rs = Inr a"
  shows "rows a = rs"
proof -
  define m where "m = length (hd rs)"
  have rect: "list_all (\<lambda>r. length r = length (hd rs)) rs"
    using assms by (cases "list_all (\<lambda>r. length r = length (hd rs)) rs")
                   (simp_all add: np_vstack_def split: if_splits)
  have a: "a = \<lparr>shape = [length rs, m], data = concat rs\<rparr>"
    using assms rect unfolding m_def by (cases "rs = []") (simp_all add: np_vstack_def)
  have len: "\<forall>r\<in>set rs. length r = m"
    using rect unfolding m_def list_all_iff .
  show ?thesis unfolding a using rows_concat_rect [OF len] by (simp add: rows_def)
qed

subsection \<open>Loading force data\<close>

text \<open>
  Claim C5. \<^verbatim>\<open>get_force_constants_from_file\<close> and \<^verbatim>\<open>get_force_sets_from_file\<close> return
  a container whose stored supercell is the \<open>3 \<times> 3\<close> identity matrix when no supercell is
  given, and then print one line of warning; when a supercell is given, they store it and
  print nothing.
\<close>

theorem missing_supercell_defaults_to_identity:
  "(case get_force_constants_from_file api file_name supercell s of
      (s', force_constants) \<Rightarrow>
        ForceConstants_get_supercell s' force_constants =
          Some (case supercell of
                  None \<Rightarrow> \<lparr>shape = [3, 3], data = [1, 0, 0, 0, 1, 0, 0, 0, 1]\<rparr>
                | Some given \<Rightarrow> given)
        \<and> stdout s' = stdout s @
            (case supercell of
               None \<Rightarrow> [''No force sets supercell defined, set to identity'']
             | Some given \<Rightarrow> []))
   \<and> (case get_force_sets_from_file api file_name supercell s of
      (s', force_sets) \<Rightarrow>
        ForceSets_get_supercell s' force_sets =
          Some (case supercell of
                  None \<Rightarrow> \<lparr>shape = [3, 3], data = [1, 0, 0, 0, 1, 0, 0, 0, 1]\<rparr>
                | Some given \<Rightarrow> given)
        \<and> stdout s' = stdout s @
            (case supercell of
               None \<Rightarrow> [''No force sets supercell defined, set to identity'']
             | Some given \<Rightarrow> []))"
  by (cases supercell)
     (simp_all add: get_force_constants_from_file_def get_force_sets_from_file_def
        ForceConstants_init_def ForceSets_init_def ForceConstants_set_supercell_def
        ForceSets_set_supercell_def ForceConstants_get_supercell_def ForceSets_get_supercell_def
        print_def np_identity_3)

subsection \<open>\<^verbatim>\<open>get_phonon\<close> and \<^verbatim>\<open>obtain_phonopy_dos\<close>\<close>

lemma get_phonon_plain:
  "get_phonon api structure False False custom_supercell s =
     (s, Inr (Phonopy api (bulk_of structure)
                (case custom_supercell of None \<Rightarrow> get_supercell_phonon structure | Some c \<Rightarrow> c)
                (get_primitive_matrix structure), structure))"
  by (simp add: get_phonon_def)

text \<open>
  Claim C8. With \<open>setup_forces\<close> set, on a structure that has neither force constants
  nor force sets, \<^verbatim>\<open>get_phonon\<close> prints its message and exits: the outcome is
  \<^verbatim>\<open>SystemExit\<close>, which is no \<^verbatim>\<open>Exception\<close>, and no phonon is returned. (With
  \<open>NAC\<close> set, the warning about the corrections is printed before.)
\<close>

theorem get_phonon_exits_without_force_data:
  assumes "get_force_constants structure = None" and "get_force_sets structure = None"
  shows "get_phonon api structure NAC True custom_supercell s =
           (print ''No force sets/constants available!''
              (if NAC then print ''Phonopy warning: Using Non Analytical Corrections'' s else s),
            Inl SystemExit)
         \<and> \<not> is_Exception SystemExit"
  using assms by (simp add: get_phonon_def)

theorem get_phonon_exits_without_force_data_witness:
  "get_force_constants example_structure = None
   \<and> get_force_sets example_structure = None
   \<and> get_phonon example_api example_structure False True None empty_state =
       (\<lparr>arrays = [], fc_objects = [], fs_objects = [],
         stdout = [''No force sets/constants available!'']\<rparr>, Inl SystemExit)"
proof -
  have h1: "get_force_constants example_structure = None"
    and h2: "get_force_sets example_structure = None"
    by (simp_all add: example_structure_def)
  from get_phonon_exits_without_force_data [OF h1 h2, of example_api False None empty_state]
  show ?thesis using h1 h2 by (simp add: print_def empty_state_def)
qed

text \<open>
  Claim C9. When the requested atom is at or above the number of entries of the partial
  density of states of the phonon that the call has set up, \<^verbatim>\<open>obtain_phonopy_dos\<close>
  prints a message that names the index and exits; it returns no array.
\<close>

theorem obtain_phonopy_dos_exits_out_of_range:
  assumes "dos_phonon api structure force_constants s = (s1, Inr (phonon, structure1))"
    and "projected_on_atom \<ge>
           int (length (snd (phonon_get_partial_DOS api
                               (partial_dos_phonon api phonon mesh freq_min freq_max))))"
  shows "obtain_phonopy_dos api structure mesh force_constants freq_min freq_max
           projected_on_atom s
         = (print (''No atom type '' @ str_int projected_on_atom) s1, Inl SystemExit)"
  using assms by (simp add: obtain_phonopy_dos_def)

theorem obtain_phonopy_dos_exits_out_of_range_witness:
  "snd (dos_phonon example_api (example_structure\<lparr>get_force_sets := Some 0\<rparr>) None
          (fst (get_force_sets_from_file example_api ''FORCE_SETS'' None empty_state)))
     = Inr ((), example_structure\<lparr>get_force_sets := Some 0, get_force_constants := Some 0\<rparr>)
   \<and> (5::int) \<ge> int (length (snd (phonon_get_partial_DOS example_api
                                     (partial_dos_phonon example_api () [40, 40, 40] None None))))
   \<and> snd (obtain_phonopy_dos example_api (example_structure\<lparr>get_force_sets := Some 0\<rparr>)
            [40, 40, 40] None None None 5
            (fst (get_force_sets_from_file example_api ''FORCE_SETS'' None empty_state)))
       = Inl SystemExit
   \<and> stdout (fst (obtain_phonopy_dos example_api (example_structure\<lparr>get_force_sets := Some 0\<rparr>)
                    [40, 40, 40] None None None 5
                    (fst (get_force_sets_from_file example_api ''FORCE_SETS'' None empty_state))))
       = [''No force sets supercell defined, set to identity'', ''No atom type 5'']"
proof -
  let ?st = "example_structure\<lparr>get_force_sets := Some 0\<rparr>"
  let ?s = "fst (get_force_sets_from_file example_api ''FORCE_SETS'' None empty_state)"
  let ?st1 = "example_structure\<lparr>get_force_sets := Some 0, get_force_constants := Some 0\<rparr>"
  have r: "snd (dos_phonon example_api ?st None ?s) = Inr ((), ?st1)"
    by (simp add: dos_phonon_def get_phonon_def example_structure_def set_force_constants_def
          ForceConstants_init_def get_force_sets_from_file_def ForceSets_init_def
          ForceSets_set_supercell_def print_def empty_state_def Let_def)
  have out: "stdout (fst (dos_phonon example_api ?st None ?s))
               = [''No force sets supercell defined, set to identity'']"
    by (simp add: dos_phonon_def get_phonon_def example_structure_def set_force_constants_def
          ForceConstants_init_def get_force_sets_from_file_def ForceSets_init_def
          ForceSets_set_supercell_def print_def empty_state_def Let_def)
  have h1: "dos_phonon example_api ?st None ?s
              = (fst (dos_phonon example_api ?st None ?s), Inr ((), ?st1))"
    using r by (simp add: prod_eq_iff)
  have h2: "(5::int) \<ge> int (length (snd (phonon_get_partial_DOS example_api
              (partial_dos_phonon example_api () [40, 40, 40] None None))))"
    by (simp add: example_api_def)
  have five: "str_int 5 = ''5''"
    by (simp add: str_int_def str_nat.simps [of 5])
  from obtain_phonopy_dos_exits_out_of_range [OF h1 h2]
  show ?thesis using r h2 out by (simp add: print_def five)
qed

subsection \<open>\<^verbatim>\<open>get_equivalent_q_points_by_symmetry\<close>\<close>

text \<open>
  Claim C10. Every q-point that \<^verbatim>\<open>get_equivalent_q_points_by_symmetry\<close> returns has
  all its components non-negative, and no q-point is returned twice.
\<close>

theorem equivalent_q_points_nonnegative_distinct:
  assumes "get_equivalent_q_points_by_symmetry api q_point structure = Inr q_points"
  shows "(\<forall>row\<in>set (rows q_points). \<forall>x\<in>set row. x \<ge> 0) \<and> distinct (rows q_points)"
proof -
  have "rows q_points = remdups (map data (tot_points api q_point structure))"
    using assms unfolding get_equivalent_q_points_by_symmetry_def by (rule rows_np_vstack)
  then show ?thesis by (auto simp: tot_points_def list_all_iff)
qed

theorem equivalent_q_points_nonnegative_distinct_witness:
  "get_equivalent_q_points_by_symmetry example_api \<lparr>shape = [1], data = [0]\<rparr> example_structure
     = Inr \<lparr>shape = [1, 1], data = [0]\<rparr>
   \<and> rows \<lparr>shape = [1, 1], data = [0::real]\<rparr> = [[0]]
   \<and> list_all (list_all (\<lambda>x. x \<ge> 0)) (rows \<lparr>shape = [1, 1], data = [0::real]\<rparr>)
   \<and> distinct (rows \<lparr>shape = [1, 1], data = [0::real]\<rparr>)"
proof -
  have h: "get_equivalent_q_points_by_symmetry example_api \<lparr>shape = [1], data = [0]\<rparr>
             example_structure = Inr \<lparr>shape = [1, 1], data = [0]\<rparr>"
    by (simp add: get_equivalent_q_points_by_symmetry_def tot_points_def q_point_image_def
          np_vstack_def T_def bulk_of_def example_api_def example_structure_def)
  have r: "rows \<lparr>shape = [1, 1], data = [0::real]\<rparr> = [[0]]"
    by (simp add: rows_def)
  from equivalent_q_points_nonnegative_distinct [OF h] show ?thesis using h r by simp
qed

subsection \<open>\<^verbatim>\<open>get_renormalized_force_constants\<close>\<close>

lemma reshape_eigenvectors_Inr:
  "reshape_eigenvectors n es = Inr ms \<Longrightarrow>
     ms = map (\<lambda>e. T \<lparr>shape = [n, n], data = data e\<rparr>) es
     \<and> (\<forall>e\<in>set es. reshape e n n = Inr \<lparr>shape = [n, n], data = data e\<rparr>)"
  by (induction es arbitrary: ms) (auto simp: reshape_def split: sum.splits if_splits)

lemma reshape_eigenvectors_total:
  "list_all (\<lambda>e. length (data e) = n * n) es \<Longrightarrow>
     reshape_eigenvectors n es = Inr (map (\<lambda>e. T \<lparr>shape = [n, n], data = data e\<rparr>) es)"
  by (induction es) (auto simp: reshape_def)

text \<open>The reconstruction context, when it is built.\<close>

lemma renormalized_dynmat2fc_Inr:
  assumes "renormalized_dynmat2fc api freqs evs structure fc_supercell s = (s1, Inr (phonon, d))"
  shows "s1 = s"
    and "d2f_dynamical_matrices d =
           Some (np_divide freqs (VaspToTHz api),
                 map (\<lambda>e. T \<lparr>shape = [get_number_of_dimensions structure
                                         * get_number_of_primitive_atoms structure,
                                       get_number_of_dimensions structure
                                         * get_number_of_primitive_atoms structure],
                              data = data e\<rparr>) evs)"
    and "\<forall>e\<in>set evs.
           reshape e (get_number_of_dimensions structure * get_number_of_primitive_atoms structure)
             (get_number_of_dimensions structure * get_number_of_primitive_atoms structure)
           = Inr \<lparr>shape = [get_number_of_dimensions structure
                              * get_number_of_primitive_atoms structure,
                            get_number_of_dimensions structure
                              * get_number_of_primitive_atoms structure],
                  data = data e\<rparr>"
  using assms
  by (auto simp: renormalized_dynmat2fc_def get_phonon_plain Let_def set_dynamical_matrices_def
        DynmatToForceConstants_init_def
      split: sum.splits dest: reshape_eigenvectors_Inr)

lemma renormalized_dynmat2fc_total:
  assumes "list_all (\<lambda>e. length (data e) = n * n) evs"
    and "n = get_number_of_dimensions structure * get_number_of_primitive_atoms structure"
  shows "renormalized_dynmat2fc api freqs evs structure fc_supercell s =
           (s, Inr (Phonopy api (bulk_of structure)
                      (case fc_supercell of None \<Rightarrow> get_supercell_phonon structure | Some c \<Rightarrow> c)
                      (get_primitive_matrix structure),
                    set_dynamical_matrices
                      (DynmatToForceConstants_init
                         (phonon_get_primitive api (Phonopy api (bulk_of structure)
                            (case fc_supercell of None \<Rightarrow> get_supercell_phonon structure | Some c \<Rightarrow> c)
                            (get_primitive_matrix structure)))
                         (phonon_get_supercell api (Phonopy api (bulk_of structure)
                            (case fc_supercell of None \<Rightarrow> get_supercell_phonon structure | Some c \<Rightarrow> c)
                            (get_primitive_matrix structure))))
                      (np_divide freqs (VaspToTHz api))
                      (map (\<lambda>e. T \<lparr>shape = [n, n], data = data e\<rparr>) evs)))"
  using reshape_eigenvectors_total [OF assms(1)] assms(2)
  by (simp add: renormalized_dynmat2fc_def get_phonon_plain Let_def)

text \<open>The context of the concrete run used below.\<close>

lemma example_dynmat2fc:
  "renormalized_dynmat2fc example_api \<lparr>shape = [1, 2], data = [4, 6]\<rparr>
     [\<lparr>shape = [2, 2, 1], data = [1, 2, 3, 4]\<rparr>] example_structure None empty_state
   = (empty_state,
      Inr ((), \<lparr>d2f_primitive = (), d2f_supercell = (),
                d2f_dynamical_matrices =
                  Some (\<lparr>shape = [1, 2], data = [2, 3]\<rparr>,
                        [\<lparr>shape = [2, 2], data = [1, 3, 2, 4]\<rparr>])\<rparr>))"
  by (simp add: renormalized_dynmat2fc_def get_phonon_plain reshape_def T_def np_divide_def
        set_dynamical_matrices_def DynmatToForceConstants_init_def example_api_def
        example_structure_def upt_rec)

text \<open>
  Claim C2. For every q-point, the eigenvector matrix handed to the reconstruction context
  is the input eigenvector array reshaped in row-major order into a \<open>(D*P, D*P)\<close> matrix
  and then transposed: its entry \<open>(i, j)\<close> is the element \<open>j * D*P + i\<close> of the input.
\<close>

theorem eigenvectors_reshaped_and_transposed:
  assumes "renormalized_dynmat2fc api renormalized_frequencies eigenvectors structure fc_supercell s
             = (s1, Inr (phonon, dynmat2fc))"
    and "n = get_number_of_dimensions structure * get_number_of_primitive_atoms structure"
  shows "\<exists>frequencies handed.
           d2f_dynamical_matrices dynmat2fc = Some (frequencies, handed)
           \<and> length handed = length eigenvectors
           \<and> (\<forall>q<length eigenvectors.
                 reshape (eigenvectors ! q) n n = Inr \<lparr>shape = [n, n], data = data (eigenvectors ! q)\<rparr>
                 \<and> handed ! q = T \<lparr>shape = [n, n], data = data (eigenvectors ! q)\<rparr>
                 \<and> shape (handed ! q) = [n, n]
                 \<and> (\<forall>i<n. \<forall>j<n.
                       data (handed ! q) ! (i * n + j) = data (eigenvectors ! q) ! (j * n + i)))"
proof -
  let ?handed = "map (\<lambda>e. T \<lparr>shape = [n, n], data = data e\<rparr>) eigenvectors"
  have ctx: "d2f_dynamical_matrices dynmat2fc =
               Some (np_divide renormalized_frequencies (VaspToTHz api), ?handed)"
    using renormalized_dynmat2fc_Inr(2) [OF assms(1)] assms(2) by simp
  have ok: "\<forall>e\<in>set eigenvectors. reshape e n n = Inr \<lparr>shape = [n, n], data = data e\<rparr>"
    using renormalized_dynmat2fc_Inr(3) [OF assms(1)] assms(2) by simp
  have "reshape (eigenvectors ! q) n n = Inr \<lparr>shape = [n, n], data = data (eigenvectors ! q)\<rparr>
        \<and> ?handed ! q = T \<lparr>shape = [n, n], data = data (eigenvectors ! q)\<rparr>
        \<and> shape (?handed ! q) = [n, n]
        \<and> (\<forall>i<n. \<forall>j<n. data (?handed ! q) ! (i * n + j) = data (eigenvectors ! q) ! (j * n + i))"
    if "q < length eigenvectors" for q
  proof -
    let ?m = "\<lparr>shape = [n, n], data = data (eigenvectors ! q)\<rparr>"
    have "data (T ?m) ! (i * n + j) = data ?m ! (j * n + i)" if "i < n" "j < n" for i j
      using that by (intro T_nth) auto
    then show ?thesis using that ok by (simp add: T_shape)
  qed
  with ctx show ?thesis by auto
qed

theorem eigenvectors_reshaped_and_transposed_witness:
  "renormalized_dynmat2fc example_api \<lparr>shape = [1, 2], data = [4, 6]\<rparr>
     [\<lparr>shape = [2, 2, 1], data = [1, 2, 3, 4]\<rparr>] example_structure None empty_state
   = (empty_state,
      Inr ((), \<lparr>d2f_primitive = (), d2f_supercell = (),
                d2f_dynamical_matrices =
                  Some (\<lparr>shape = [1, 2], data = [2, 3]\<rparr>,
                        [\<lparr>shape = [2, 2], data = [1, 3, 2, 4]\<rparr>])\<rparr>))
   \<and> (2::nat) = get_number_of_dimensions example_structure
                  * get_number_of_primitive_atoms example_structure
   \<and> T \<lparr>shape = [2, 2], data = [1, 2, 3, 4 :: real]\<rparr> = \<lparr>shape = [2, 2], data = [1, 3, 2, 4]\<rparr>"
proof -
  have h2: "(2::nat) = get_number_of_dimensions example_structure
                         * get_number_of_primitive_atoms example_structure"
    by (simp add: example_structure_def)
  from eigenvectors_reshaped_and_transposed [OF example_dynmat2fc h2]
  have "\<lparr>shape = [2, 2], data = [1, 3, 2, 4 :: real]\<rparr> = T \<lparr>shape = [2, 2], data = [1, 2, 3, 4]\<rparr>"
    by simp
  then show ?thesis using example_dynmat2fc h2 by simp
qed

text \<open>
  Claim C3. Every frequency handed to the reconstruction context is the input frequency
  divided by the constant \<^verbatim>\<open>VaspToTHz\<close>, and by nothing else.
\<close>

theorem frequencies_divided_by_VaspToTHz:
  assumes "renormalized_dynmat2fc api renormalized_frequencies eigenvectors structure fc_supercell s
             = (s1, Inr (phonon, dynmat2fc))"
  shows "\<exists>frequencies handed.
           d2f_dynamical_matrices dynmat2fc = Some (frequencies, handed)
           \<and> shape frequencies = shape renormalized_frequencies
           \<and> data frequencies = map (\<lambda>f. f / VaspToTHz api) (data renormalized_frequencies)"
  using renormalized_dynmat2fc_Inr(2) [OF assms] by (simp add: np_divide_def)

theorem frequencies_divided_by_VaspToTHz_witness:
  "renormalized_dynmat2fc example_api \<lparr>shape = [1, 2], data = [4, 6]\<rparr>
     [\<lparr>shape = [2, 2, 1], data = [1, 2, 3, 4]\<rparr>] example_structure None empty_state
   = (empty_state,
      Inr ((), \<lparr>d2f_primitive = (), d2f_supercell = (),
                d2f_dynamical_matrices =
                  Some (\<lparr>shape = [1, 2], data = [2, 3]\<rparr>,
                        [\<lparr>shape = [2, 2], data = [1, 3, 2, 4]\<rparr>])\<rparr>))
   \<and> [2, 3] = map (\<lambda>f. f / VaspToTHz example_api) [4, 6]"
proof -
  from frequencies_divided_by_VaspToTHz [OF example_dynmat2fc]
  have "[2, 3] = map (\<lambda>f. f / VaspToTHz example_api) [4, 6]"
    by simp
  then show ?thesis using example_dynmat2fc by simp
qed

lemma reshape_eigenvectors_fails:
  "\<not> list_all (\<lambda>e. length (data e) = n * n) es \<Longrightarrow> reshape_eigenvectors n es = Inl ValueError"
  by (induction es) (auto simp: reshape_def split: sum.splits)

lemma renormalized_dynmat2fc_fails:
  assumes "\<not> list_all (\<lambda>e. length (data e) = n * n) evs"
    and "n = get_number_of_dimensions structure * get_number_of_primitive_atoms structure"
  shows "renormalized_dynmat2fc api freqs evs structure fc_supercell s = (s, Inl ValueError)"
  using reshape_eigenvectors_fails [OF assms(1)] assms(2)
  by (simp add: renormalized_dynmat2fc_def get_phonon_plain Let_def)



lemma example_loaded_dynmat2fc:
  "renormalized_dynmat2fc example_api \<lparr>shape = [1, 2], data = [4, 6]\<rparr>
     [\<lparr>shape = [2, 2, 1], data = [1, 2, 3, 4]\<rparr>] example_structure
     (Some \<lparr>shape = [1, 1], data = [3]\<rparr>) loaded_state
   = (loaded_state,
      Inr ((), \<lparr>d2f_primitive = (), d2f_supercell = (),
                d2f_dynamical_matrices =
                  Some (\<lparr>shape = [1, 2], data = [2, 3]\<rparr>,
                        [\<lparr>shape = [2, 2], data = [1, 3, 2, 4]\<rparr>])\<rparr>))"
  by (simp add: renormalized_dynmat2fc_def get_phonon_plain reshape_def T_def np_divide_def
        set_dynamical_matrices_def DynmatToForceConstants_init_def example_api_def
        example_structure_def upt_rec)



text \<open>
  Claim C4, as stated, fails: the function does not return on every input. With \<open>D*P = 2\<close>
  and an eigenvector array of three elements the reshape raises \<^verbatim>\<open>ValueError\<close>; no
  instance is returned and the state is as before the call.
\<close>

theorem renormalized_force_constants_wrong_size_raises:
  "get_renormalized_force_constants example_api \<lparr>shape = [1, 2], data = [4, 6]\<rparr>
     [\<lparr>shape = [3], data = [1, 2, 3]\<rparr>] example_structure
     (Some \<lparr>shape = [1, 1], data = [3]\<rparr>) False loaded_state
   = (loaded_state, Inl ValueError)"
  by (simp add: get_renormalized_force_constants_def renormalized_construct_def
        renormalized_dynmat2fc_def get_phonon_plain reshape_def example_structure_def)

text \<open>
  Claim C4, amended. On every input whose eigenvector arrays hold \<open>(D*P)\<^sup>2\<close> elements each,
  \<^verbatim>\<open>get_renormalized_force_constants\<close> returns a \<^verbatim>\<open>ForceConstants\<close> instance whose
  supercell is the argument \<open>fc_supercell\<close> and whose tensor is the one that the
  reconstruction produced, symmetrized when \<open>symmetrize\<close> is set. On every other input it
  raises \<^verbatim>\<open>ValueError\<close> and leaves the state as it was.
\<close>

theorem renormalized_force_constants_packaged:
  assumes "n = get_number_of_dimensions structure * get_number_of_primitive_atoms structure"
  shows "(list_all (\<lambda>e. length (data e) = n * n) eigenvectors \<longrightarrow>
           (\<exists>s1 phonon dynmat2fc s' force_constants.
              renormalized_dynmat2fc api renormalized_frequencies eigenvectors structure
                fc_supercell s = (s1, Inr (phonon, dynmat2fc))
              \<and> get_renormalized_force_constants api renormalized_frequencies eigenvectors
                  structure fc_supercell symmetrize s = (s', Inr force_constants)
              \<and> ForceConstants_get_supercell s' force_constants = fc_supercell
              \<and> tensor_of s' force_constants =
                  (if symmetrize
                   then set_tensor_symmetry_PJ api (DynmatToForceConstants_run api dynmat2fc)
                          (cell_get_cell api (phonon_get_supercell api phonon))
                          (cell_get_scaled_positions api (phonon_get_supercell api phonon))
                          (phonon_symmetry api phonon)
                   else DynmatToForceConstants_run api dynmat2fc)))
         \<and> (\<not> list_all (\<lambda>e. length (data e) = n * n) eigenvectors \<longrightarrow>
              get_renormalized_force_constants api renormalized_frequencies eigenvectors
                structure fc_supercell symmetrize s = (s, Inl ValueError))"
proof (intro conjI impI)
  assume ok: "list_all (\<lambda>e. length (data e) = n * n) eigenvectors"
  show "\<exists>s1 phonon dynmat2fc s' force_constants.
              renormalized_dynmat2fc api renormalized_frequencies eigenvectors structure
                fc_supercell s = (s1, Inr (phonon, dynmat2fc))
              \<and> get_renormalized_force_constants api renormalized_frequencies eigenvectors
                  structure fc_supercell symmetrize s = (s', Inr force_constants)
              \<and> ForceConstants_get_supercell s' force_constants = fc_supercell
              \<and> tensor_of s' force_constants =
                  (if symmetrize
                   then set_tensor_symmetry_PJ api (DynmatToForceConstants_run api dynmat2fc)
                          (cell_get_cell api (phonon_get_supercell api phonon))
                          (cell_get_scaled_positions api (phonon_get_supercell api phonon))
                          (phonon_symmetry api phonon)
                   else DynmatToForceConstants_run api dynmat2fc)"
    by (simp add: renormalized_dynmat2fc_total [OF ok assms]
          get_renormalized_force_constants_def renormalized_construct_def
          ForceConstants_init_def symmetrize_in_place_def print_def tensor_of_def
          ForceConstants_get_array_def ForceConstants_get_supercell_def)
next
  assume bad: "\<not> list_all (\<lambda>e. length (data e) = n * n) eigenvectors"
  show "get_renormalized_force_constants api renormalized_frequencies eigenvectors
          structure fc_supercell symmetrize s = (s, Inl ValueError)"
    by (simp add: renormalized_dynmat2fc_fails [OF bad assms]
          get_renormalized_force_constants_def renormalized_construct_def)
qed

theorem renormalized_force_constants_packaged_witness:
  "(2::nat) = get_number_of_dimensions example_structure
                * get_number_of_primitive_atoms example_structure
   \<and> list_all (\<lambda>e. length (data e) = 2 * 2) [\<lparr>shape = [2, 2, 1], data = [1, 2, 3, 4 :: real]\<rparr>]
   \<and> (\<exists>s' force_constants.
         get_renormalized_force_constants example_api \<lparr>shape = [1, 2], data = [4, 6]\<rparr>
           [\<lparr>shape = [2, 2, 1], data = [1, 2, 3, 4]\<rparr>] example_structure
           (Some \<lparr>shape = [1, 1], data = [3]\<rparr>) True loaded_state
           = (s', Inr force_constants)
         \<and> ForceConstants_get_supercell s' force_constants = Some \<lparr>shape = [1, 1], data = [3]\<rparr>
         \<and> tensor_of s' force_constants = \<lparr>shape = [1, 1, 1, 1], data = [- 5]\<rparr>)
   \<and> (\<exists>s' force_constants.
         get_renormalized_force_constants example_api \<lparr>shape = [1, 2], data = [4, 6]\<rparr>
           [\<lparr>shape = [2, 2, 1], data = [1, 2, 3, 4]\<rparr>] example_structure
           (Some \<lparr>shape = [1, 1], data = [3]\<rparr>) False loaded_state
           = (s', Inr force_constants)
         \<and> ForceConstants_get_supercell s' force_constants = Some \<lparr>shape = [1, 1], data = [3]\<rparr>
         \<and> tensor_of s' force_constants = \<lparr>shape = [1, 1, 1, 1], data = [5]\<rparr>)
   \<and> \<not> list_all (\<lambda>e. length (data e) = 2 * 2) [\<lparr>shape = [3], data = [1, 2, 3 :: real]\<rparr>]
   \<and> get_renormalized_force_constants example_api \<lparr>shape = [1, 2], data = [4, 6]\<rparr>
        [\<lparr>shape = [3], data = [1, 2, 3]\<rparr>] example_structure
        (Some \<lparr>shape = [1, 1], data = [3]\<rparr>) True loaded_state
      = (loaded_state, Inl ValueError)"
proof -
  let ?F = "\<lparr>shape = [1, 2], data = [4, 6 :: real]\<rparr>"
  let ?E = "\<lparr>shape = [2, 2, 1], data = [1, 2, 3, 4 :: real]\<rparr>"
  let ?SC = "Some \<lparr>shape = [1, 1], data = [3 :: real]\<rparr>"
  have h: "(2::nat) = get_number_of_dimensions example_structure
                        * get_number_of_primitive_atoms example_structure"
    by (simp add: example_structure_def)
  have ok: "list_all (\<lambda>e. length (data e) = 2 * 2) [?E]"
    by simp
  have bad: "\<not> list_all (\<lambda>e. length (data e) = 2 * 2) [\<lparr>shape = [3], data = [1, 2, 3 :: real]\<rparr>]"
    by simp
  have run: "DynmatToForceConstants_run example_api d = \<lparr>shape = [1, 1, 1, 1], data = [5]\<rparr>"
    if "renormalized_dynmat2fc example_api ?F [?E] example_structure ?SC loaded_state
          = (s1, Inr (phonon, d))" for s1 phonon d
    using that unfolding example_loaded_dynmat2fc by (auto simp: example_api_def)
  have sym: "set_tensor_symmetry_PJ example_api \<lparr>shape = [1, 1, 1, 1], data = [5]\<rparr> l p y
               = \<lparr>shape = [1, 1, 1, 1], data = [- 5]\<rparr>" for l p y
    by (simp add: example_api_def)
  from renormalized_force_constants_packaged
         [OF h, where api = example_api and eigenvectors = "[?E]" and fc_supercell = ?SC
            and symmetrize = True and s = loaded_state and renormalized_frequencies = ?F]
       ok
  have with_sym: "\<exists>s' force_constants.
         get_renormalized_force_constants example_api ?F [?E] example_structure ?SC True
           loaded_state = (s', Inr force_constants)
         \<and> ForceConstants_get_supercell s' force_constants = ?SC
         \<and> tensor_of s' force_constants = \<lparr>shape = [1, 1, 1, 1], data = [- 5]\<rparr>"
    using run sym by fastforce
  from renormalized_force_constants_packaged
         [OF h, where api = example_api and eigenvectors = "[?E]" and fc_supercell = ?SC
            and symmetrize = False and s = loaded_state and renormalized_frequencies = ?F]
       ok
  have without_sym: "\<exists>s' force_constants.
         get_renormalized_force_constants example_api ?F [?E] example_structure ?SC False
           loaded_state = (s', Inr force_constants)
         \<and> ForceConstants_get_supercell s' force_constants = ?SC
         \<and> tensor_of s' force_constants = \<lparr>shape = [1, 1, 1, 1], data = [5]\<rparr>"
    using run by fastforce
  from renormalized_force_constants_packaged
         [OF h, where api = example_api
            and eigenvectors = "[\<lparr>shape = [3], data = [1, 2, 3 :: real]\<rparr>]"
            and fc_supercell = ?SC and symmetrize = True and s = loaded_state
            and renormalized_frequencies = ?F]
       bad
  have raised: "get_renormalized_force_constants example_api ?F
                  [\<lparr>shape = [3], data = [1, 2, 3]\<rparr>] example_structure ?SC True loaded_state
                = (loaded_state, Inl ValueError)"
    by blast
  show ?thesis using h ok bad with_sym without_sym raised by blast
qed

subsection \<open>In-place symmetrization\<close>
























subsection \<open>The data preparation of \<^verbatim>\<open>qha_extract.py\<close>\<close>

lemma tensor_of_loaded_file:
  "get_force_constants_from_file api file_name fc_supercell s = (s1, force_constants)
     \<Longrightarrow> tensor_of s1 force_constants = parse_FORCE_CONSTANTS api file_name"
  by (cases fc_supercell)
     (auto simp: get_force_constants_from_file_def ForceConstants_init_def
        ForceConstants_set_supercell_def print_def tensor_of_def ForceConstants_get_array_def)

text \<open>
  The tensors that \<^verbatim>\<open>interp1d\<close> is given are those of the files in the order of the
  file names: the volumes play no role in their order.
\<close>

lemma read_force_constants_mat_file_order:
  "snd (read_force_constants_mat api fc_filenames fc_supercell s)
     = map (parse_FORCE_CONSTANTS api) fc_filenames"
proof (induction fc_filenames arbitrary: s)
  case Nil
  show ?case by simp
next
  case (Cons filename fc_filenames)
  obtain s1 force_constants where
    l: "get_force_constants_from_file api filename fc_supercell s = (s1, force_constants)"
    by fastforce
  obtain s2 force_constants_mat where
    r: "read_force_constants_mat api fc_filenames fc_supercell s1 = (s2, force_constants_mat)"
    by fastforce
  have "force_constants_mat = map (parse_FORCE_CONSTANTS api) fc_filenames"
    using Cons.IH [of s1] r by simp
  then show ?case using l r tensor_of_loaded_file [OF l] by simp
qed

text \<open>
  Claim C6 says that every per-volume series given to an interpolator is reordered along
  with the volumes. The code reorders the electronic energies, the free energies, the
  entropies and the heat capacities, and not the force constants. On a table whose volumes
  are 2, 1, 3, with the files \<^verbatim>\<open>fc_a\<close>, \<^verbatim>\<open>fc_b\<close>, \<^verbatim>\<open>fc_c\<close> holding the tensors
  20, 10, 30 of these volumes, and free energies 20, 10, 30: \<^verbatim>\<open>PhonopyQHA\<close> is given the
  volumes 1, 2, 3 with the free energies 10, 20, 30, and \<^verbatim>\<open>interp1d\<close> the volumes
  1, 2, 3 with the tensors 20, 10, 30.
\<close>

theorem qha_force_constants_keep_file_order:
  "sort_by_volume [(2::nat, - 10), (1, - 11), (3, - 9)]
     [[\<lparr>temperature = 300, entropy = 2, free_energy = 20, heat_capacity = 200\<rparr>],
      [\<lparr>temperature = 300, entropy = 1, free_energy = 10, heat_capacity = 100\<rparr>],
      [\<lparr>temperature = 300, entropy = 3, free_energy = 30, heat_capacity = 300 :: real\<rparr>]]
   = Inr \<lparr>qha_volumes = [1, 2, 3], qha_electronic_energies = [- 11, - 10, - 9],
          qha_temperatures = [300], qha_free_energy = [[10, 20, 30]],
          qha_cv = [[100, 200, 300]], qha_entropy = [[1, 2, 3]]\<rparr>
   \<and> snd (f_temperature_arguments example_api [(2::nat, - 10), (1, - 11), (3, - 9)]
            [[\<lparr>temperature = 300, entropy = 2, free_energy = 20, heat_capacity = 200\<rparr>],
             [\<lparr>temperature = 300, entropy = 1, free_energy = 10, heat_capacity = 100\<rparr>],
             [\<lparr>temperature = 300, entropy = 3, free_energy = 30, heat_capacity = 300\<rparr>]]
            [''fc_a'', ''fc_b'', ''fc_c''] None empty_state)
     = Inr ([1, 2, 3],
            [\<lparr>shape = [1, 1, 1, 1], data = [20]\<rparr>,
             \<lparr>shape = [1, 1, 1, 1], data = [10]\<rparr>,
             \<lparr>shape = [1, 1, 1, 1], data = [30]\<rparr>])"
proof -
  have sorted: "sort_by_volume [(2::nat, - 10), (1, - 11), (3, - 9)]
     [[\<lparr>temperature = 300, entropy = 2, free_energy = 20, heat_capacity = 200\<rparr>],
      [\<lparr>temperature = 300, entropy = 1, free_energy = 10, heat_capacity = 100\<rparr>],
      [\<lparr>temperature = 300, entropy = 3, free_energy = 30, heat_capacity = 300 :: real\<rparr>]]
   = Inr \<lparr>qha_volumes = [1, 2, 3], qha_electronic_energies = [- 11, - 10, - 9],
          qha_temperatures = [300], qha_free_energy = [[10, 20, 30]],
          qha_cv = [[100, 200, 300]], qha_entropy = [[1, 2, 3]]\<rparr>"
    by (simp add: sort_by_volume_def argsort_def take_index_def T_take_index_def
          read_temperatures_def upt_rec)
  have files: "map (parse_FORCE_CONSTANTS example_api) [''fc_a'', ''fc_b'', ''fc_c'']
                 = [\<lparr>shape = [1, 1, 1, 1], data = [20]\<rparr>,
                    \<lparr>shape = [1, 1, 1, 1], data = [10]\<rparr>,
                    \<lparr>shape = [1, 1, 1, 1], data = [30]\<rparr>]"
    by (simp add: example_api_def)
  have "snd (f_temperature_arguments example_api [(2::nat, - 10), (1, - 11), (3, - 9)]
            [[\<lparr>temperature = 300, entropy = 2, free_energy = 20, heat_capacity = 200\<rparr>],
             [\<lparr>temperature = 300, entropy = 1, free_energy = 10, heat_capacity = 100\<rparr>],
             [\<lparr>temperature = 300, entropy = 3, free_energy = 30, heat_capacity = 300\<rparr>]]
            [''fc_a'', ''fc_b'', ''fc_c''] None empty_state)
     = Inr ([1, 2, 3], map (parse_FORCE_CONSTANTS example_api) [''fc_a'', ''fc_b'', ''fc_c''])"
  proof -
    obtain s1 force_constants_mat where
      rm: "read_force_constants_mat example_api [''fc_a'', ''fc_b'', ''fc_c''] None empty_state
             = (s1, force_constants_mat)"
      by fastforce
    have "snd (read_force_constants_mat example_api [''fc_a'', ''fc_b'', ''fc_c''] None
                 empty_state)
            = map (parse_FORCE_CONSTANTS example_api) [''fc_a'', ''fc_b'', ''fc_c'']"
      by (rule read_force_constants_mat_file_order)
    then have m: "force_constants_mat
                    = map (parse_FORCE_CONSTANTS example_api) [''fc_a'', ''fc_b'', ''fc_c'']"
      unfolding rm by (simp only: snd_conv)
    show ?thesis unfolding f_temperature_arguments_def sorted rm by (simp add: m)
  qed
  then show ?thesis using sorted files by simp
qed

end
